theory Spec2Isabelle
  imports
    Complex_Main
    "HOL-Library.AList"
    "HOL-Library.Char_ord"
    "HOL-Library.List_Lexorder"
    "HOL-Library.Word"
begin

section \<open>Values of the script\<close>

text \<open>
  The script \<^verbatim>\<open>applied_app.py\<close> reads five slider values, classifies them, builds a
  24-point hourly timeline, fits a forecasting model and writes a spreadsheet report.
  Four of the five readings are Python ints; the temperature is a Python float.  A float
  is either a finite number, an infinity or NaN, and every comparison with NaN is false.
\<close>

datatype pyfloat = Float real | PosInf | NegInf | NaN

fun float_le :: "pyfloat \<Rightarrow> pyfloat \<Rightarrow> bool" where
  "float_le NaN _ = False"
| "float_le _ NaN = False"
| "float_le NegInf _ = True"
| "float_le _ PosInf = True"
| "float_le (Float a) (Float b) = (a \<le> b)"
| "float_le PosInf _ = False"
| "float_le _ NegInf = False"

section \<open>Helper functions (lines 10 to 21)\<close>

text \<open>
  \<^verbatim>\<open>
  def classify_patient_condition(systolic, diastolic, pulse, temp, spo2):
      if (90 <= systolic <= 120 and 60 <= diastolic <= 80 and 60 <= pulse <= 100
              and 36.5 <= temp <= 37.5 and 95 <= spo2 <= 100):
          return "Normal"
      return "At Risk"
  \<close>
  A chained comparison \<^verbatim>\<open>a <= x <= b\<close> is \<^verbatim>\<open>a <= x and x <= b\<close>.
\<close>

definition classify_patient_condition ::
    "int \<Rightarrow> int \<Rightarrow> int \<Rightarrow> pyfloat \<Rightarrow> int \<Rightarrow> string" where
  "classify_patient_condition systolic diastolic pulse temp spo2 =
     (if 90 \<le> systolic \<and> systolic \<le> 120 \<and> 60 \<le> diastolic \<and> diastolic \<le> 80
         \<and> 60 \<le> pulse \<and> pulse \<le> 100
         \<and> float_le (Float 36.5) temp \<and> float_le temp (Float 37.5)
         \<and> 95 \<le> spo2 \<and> spo2 \<le> 100
      then ''Normal''
      else ''At Risk'')"

text \<open>
  \<^verbatim>\<open>
  def disease_recommendation(condition):
      if condition == "Normal":
          return "No immediate diseases suggested based on normal readings."
      else:
          return ("Possibilities include hypertension, heart disease, respiratory issues, "
                  "or other conditions requiring further medical assessment.")
  \<close>
\<close>

definition disease_recommendation :: "string \<Rightarrow> string" where
  "disease_recommendation condition =
     (if condition = ''Normal''
      then ''No immediate diseases suggested based on normal readings.''
      else ''Possibilities include hypertension, heart disease, respiratory issues, ''
           @ ''or other conditions requiring further medical assessment.'')"

section \<open>The hourly timeline (lines 52 to 64)\<close>

text \<open>
  Instants are counted in microseconds on the naive local calendar, the resolution of
  \<^verbatim>\<open>datetime.now()\<close>.  \<^verbatim>\<open>datetime.now().date()\<close> keeps the calendar day only, and pandas
  reads a date as the timestamp of its midnight.  \<^verbatim>\<open>pd.date_range(start, periods, freq)\<close>
  returns \<^verbatim>\<open>periods\<close> timestamps, the first one \<^verbatim>\<open>start\<close>, each one \<^verbatim>\<open>freq\<close> after the one
  before; \<^verbatim>\<open>freq="H"\<close> is one hour.
\<close>

definition hour :: int where
  "hour = 3600000000"

definition date :: "int \<Rightarrow> int" where
  "date now = now div (24 * hour)"

definition Timestamp :: "int \<Rightarrow> int" where
  "Timestamp d = d * (24 * hour)"

definition date_range :: "int \<Rightarrow> nat \<Rightarrow> int \<Rightarrow> int list" where
  "date_range start periods freq = map (\<lambda>i. start + int i * freq) [0..<periods]"

text \<open>
  \<^verbatim>\<open>
  today = datetime.now().date()
  time_data = pd.date_range(start=today, periods=24, freq="H")
  if predicted_condition == "Normal":
      condition_data = ["Normal"] * 18 + ["At Risk"] * 6
  else:
      condition_data = ["At Risk"] * 18 + ["Normal"] * 6
  plot_data = pd.DataFrame({"Time": time_data, "Condition": condition_data})
  \<close>
  The column \<^verbatim>\<open>Condition_Binary\<close> is absent until line 97 adds it.
\<close>

definition time_data :: "int \<Rightarrow> int list" where
  "time_data start = date_range start 24 hour"

definition condition_data :: "string \<Rightarrow> string list" where
  "condition_data predicted_condition =
     (if predicted_condition = ''Normal''
      then replicate 18 ''Normal'' @ replicate 6 ''At Risk''
      else replicate 18 ''At Risk'' @ replicate 6 ''Normal'')"

record plot_frame =
  Time :: "int list"
  Condition :: "string list"
  Condition_Binary :: "int list option"

definition plot_data :: "string \<Rightarrow> int \<Rightarrow> plot_frame" where
  "plot_data predicted_condition start =
     \<lparr>Time = time_data start, Condition = condition_data predicted_condition,
      Condition_Binary = None\<rparr>"

text \<open>
  The lambda of lines 82 and 97: \<^verbatim>\<open>lambda x: 1 if x == "At Risk" else 0\<close>, and line 97,
  \<^verbatim>\<open>plot_data['Condition_Binary'] = plot_data["Condition"].apply(...)\<close>.
\<close>

definition condition_binary :: "string \<Rightarrow> int" where
  "condition_binary x = (if x = ''At Risk'' then 1 else 0)"

definition add_condition_binary :: "plot_frame \<Rightarrow> plot_frame" where
  "add_condition_binary data =
     data\<lparr>Condition_Binary := Some (map condition_binary (Condition data))\<rparr>"

section \<open>Charts (lines 67 to 84)\<close>

text \<open>
  \<^verbatim>\<open>value_counts()\<close> counts each distinct value and orders the counts from the largest
  down (here with a stable sort from the order of first appearance; the two counts of the
  script, 18 and 6, are never equal); \<^verbatim>\<open>groupby(...).size()\<close> counts per value with the
  values in ascending order.  A figure is what the script asks matplotlib to draw.
\<close>

fun uniques :: "'a list \<Rightarrow> 'a list" where
  "uniques [] = []"
| "uniques (x # xs) = x # filter (\<lambda>y. y \<noteq> x) (uniques xs)"

definition value_counts :: "string list \<Rightarrow> (string \<times> nat) list" where
  "value_counts xs =
     sort_key (\<lambda>vc. - int (snd vc)) (map (\<lambda>v. (v, count_list xs v)) (uniques xs))"

definition groupby_size :: "string list \<Rightarrow> (string \<times> nat) list" where
  "groupby_size xs = map (\<lambda>v. (v, count_list xs v)) (sort (uniques xs))"

datatype figure =
    Pie "(string \<times> nat) list"
  | Bar "(string \<times> nat) list" "string list" string
  | Line "(int \<times> int) list" string

definition plot_condition_distribution :: "plot_frame \<Rightarrow> figure" where
  "plot_condition_distribution data = Pie (value_counts (Condition data))"

definition plot_hourly_condition_counts :: "plot_frame \<Rightarrow> figure" where
  "plot_hourly_condition_counts data =
     Bar (groupby_size (Condition data)) [''skyblue'', ''salmon''] ''Count''"

definition plot_time_series :: "plot_frame \<Rightarrow> figure" where
  "plot_time_series data =
     Line (zip (Time data) (map condition_binary (Condition data)))
       ''Condition (1 = At Risk, 0 = Normal)''"

section \<open>Tables and the spreadsheet writer (lines 35, 105 to 137)\<close>

text \<open>
  A table is what \<^verbatim>\<open>to_excel\<close> receives: a data frame or a series, with its index.  A data
  frame built from a list of rows has the unnamed index 0, 1, ...; the series returned by
  \<^verbatim>\<open>value_counts()\<close> is indexed by the counted values, its index is named after the counted
  column and its one column of counts is named \<^verbatim>\<open>count\<close> (the names pandas 2 gives).
\<close>

datatype cell = IntCell int | FloatCell pyfloat | StrCell string | TimeCell int

record table =
  index_label :: "string option"
  index :: "cell list"
  columns :: "(string \<times> cell list) list"

definition range_index :: "nat \<Rightarrow> cell list" where
  "range_index n = map (\<lambda>i. IntCell (int i)) [0..<n]"

definition input_data :: "int \<Rightarrow> int \<Rightarrow> int \<Rightarrow> pyfloat \<Rightarrow> int \<Rightarrow> table" where
  "input_data systolic diastolic pulse temperature spo2 =
     \<lparr>index_label = None, index = range_index 1,
      columns = [(''Systolic'', [IntCell systolic]), (''Diastolic'', [IntCell diastolic]),
                 (''Pulse'', [IntCell pulse]), (''Temperature'', [FloatCell temperature]),
                 (''SPO2'', [IntCell spo2])]\<rparr>"

definition plot_table :: "plot_frame \<Rightarrow> table" where
  "plot_table data =
     \<lparr>index_label = None, index = range_index (length (Time data)),
      columns = [(''Time'', map TimeCell (Time data)),
                 (''Condition'', map StrCell (Condition data))]
               @ (case Condition_Binary data of
                    None \<Rightarrow> []
                  | Some b \<Rightarrow> [(''Condition_Binary'', map IntCell b)])\<rparr>"

definition counts_table :: "(string \<times> nat) list \<Rightarrow> table" where
  "counts_table condition_counts =
     \<lparr>index_label = Some ''Condition'',
      index = map (\<lambda>vc. StrCell (fst vc)) condition_counts,
      columns = [(''count'', map (\<lambda>vc. IntCell (int (snd vc))) condition_counts)]\<rparr>"

text \<open>
  \<^verbatim>\<open>to_excel\<close> with its defaults writes the column names in row 0 from column 1 on, the
  index name (when there is one) in the corner, the index in column 0 from row 1 on and
  the values beside it.  Rows and columns are counted from 0, as xlsxwriter does.
\<close>

definition excel_cells :: "table \<Rightarrow> ((nat \<times> nat) \<times> cell) list" where
  "excel_cells t =
     map (\<lambda>jc. ((0, Suc (fst jc)), StrCell (fst (snd jc)))) (enumerate 0 (columns t))
     @ (case index_label t of None \<Rightarrow> [] | Some l \<Rightarrow> [((0, 0), StrCell l)])
     @ map (\<lambda>iv. ((Suc (fst iv), 0), snd iv)) (enumerate 0 (index t))
     @ concat (map (\<lambda>jc. map (\<lambda>iv. ((Suc (fst iv), Suc (fst jc)), snd iv))
                              (enumerate 0 (snd (snd jc))))
                   (enumerate 0 (columns t)))"

text \<open>
  A worksheet is a table of cells, where a later write to a cell replaces the earlier one,
  and a list of embedded images, each with its anchor cell, its name and its bytes.
\<close>

type_synonym byte = "8 word"

record worksheet =
  cells :: "((nat \<times> nat) \<times> cell) list"
  images :: "((nat \<times> nat) \<times> string \<times> byte list) list"

definition add_worksheet :: worksheet where
  "add_worksheet = \<lparr>cells = [], images = []\<rparr>"

definition write_cell :: "worksheet \<Rightarrow> nat \<times> nat \<Rightarrow> cell \<Rightarrow> worksheet" where
  "write_cell ws rc v = ws\<lparr>cells := AList.update rc v (cells ws)\<rparr>"

definition insert_image :: "worksheet \<Rightarrow> nat \<times> nat \<Rightarrow> string \<Rightarrow> byte list \<Rightarrow> worksheet" where
  "insert_image ws rc filename image_data = ws\<lparr>images := images ws @ [(rc, filename, image_data)]\<rparr>"

text \<open>
  A cell reference such as \<^verbatim>\<open>G20\<close>: column letters in base 26, then the row number,
  both turned into indices from 0.
\<close>

definition xl_cell_to_rowcol :: "string \<Rightarrow> nat \<times> nat" where
  "xl_cell_to_rowcol cell_str =
     (let is_letter = (\<lambda>c. CHR ''A'' \<le> c \<and> c \<le> CHR ''Z'');
          col = foldl (\<lambda>a c. a * 26 + (of_char c - 64)) (0::nat) (takeWhile is_letter cell_str);
          row = foldl (\<lambda>a c. a * 10 + (of_char c - 48)) (0::nat) (dropWhile is_letter cell_str)
      in (row - 1, col - 1))"

text \<open>
  \<^verbatim>\<open>df.to_excel(writer, sheet_name=...)\<close> writes into the sheet of that name and adds the
  sheet, after the ones the workbook has, when there is none.
\<close>

definition write_cells :: "worksheet \<Rightarrow> ((nat \<times> nat) \<times> cell) list \<Rightarrow> worksheet" where
  "write_cells wks rcvs = foldl (\<lambda>w rcv. write_cell w (fst rcv) (snd rcv)) wks rcvs"

definition to_excel ::
    "(string \<times> worksheet) list \<Rightarrow> table \<Rightarrow> string \<Rightarrow> (string \<times> worksheet) list" where
  "to_excel sheets t sheet_name =
     (let wks = (case map_of sheets sheet_name of None \<Rightarrow> add_worksheet | Some w \<Rightarrow> w)
      in AList.update sheet_name (write_cells wks (excel_cells t)) sheets)"

section \<open>In-memory byte streams\<close>

text \<open>
  \<^verbatim>\<open>BytesIO()\<close> is an empty stream with its cursor at 0.  Writing puts the bytes at the
  cursor (padding with zero bytes when the cursor is past the end) and moves the cursor
  behind them; \<^verbatim>\<open>seek\<close> sets the cursor; \<^verbatim>\<open>getvalue\<close> is the whole content, wherever the
  cursor is.
\<close>

record bytes_io =
  buf :: "byte list"
  pos :: nat

definition BytesIO :: bytes_io where
  "BytesIO = \<lparr>buf = [], pos = 0\<rparr>"

definition bio_write :: "bytes_io \<Rightarrow> byte list \<Rightarrow> bytes_io" where
  "bio_write b bs =
     \<lparr>buf = take (pos b) (buf b) @ replicate (pos b - length (buf b)) 0 @ bs
            @ drop (pos b + length bs) (buf b),
      pos = pos b + length bs\<rparr>"

definition seek :: "bytes_io \<Rightarrow> nat \<Rightarrow> bytes_io" where
  "seek b n = b\<lparr>pos := n\<rparr>"

definition getvalue :: "bytes_io \<Rightarrow> byte list" where
  "getvalue b = buf b"

section \<open>The external libraries\<close>

text \<open>
  What the script calls and does not contain: the model fitting and forecasting of
  statsmodels (\<^verbatim>\<open>ARIMA(series, order).fit()\<close>, which may raise, here \<open>None\<close>, and
  \<^verbatim>\<open>forecast(steps)\<close>), the rendering of a figure into an image format by matplotlib, and the
  serialisation of a finished workbook by xlsxwriter.  The script is modelled for any such
  libraries.
\<close>

record ('m, 'f) libs =
  arima_fit :: "int list \<Rightarrow> nat \<times> nat \<times> nat \<Rightarrow> 'm option"
  arima_forecast :: "'m \<Rightarrow> nat \<Rightarrow> 'f list"
  render :: "figure \<Rightarrow> string \<Rightarrow> byte list"
  xlsx_bytes :: "(string \<times> worksheet) list \<Rightarrow> byte list"

datatype error = ModelFitError | KeyError string | NameError string

definition savefig :: "('m, 'f) libs \<Rightarrow> figure \<Rightarrow> bytes_io \<Rightarrow> string \<Rightarrow> bytes_io" where
  "savefig l fig stream fmt = bio_write stream (render l fig fmt)"

section \<open>Forecasting (lines 97 to 100)\<close>

text \<open>
  \<^verbatim>\<open>
  model = ARIMA(plot_data['Condition_Binary'], order=(1, 1, 1))
  model_fit = model.fit()
  future_pred = model_fit.forecast(steps=24)
  \<close>
  There is no \<^verbatim>\<open>try\<close> around these lines: what the fitting raises leaves the script.
\<close>

definition future_pred :: "('m, 'f) libs \<Rightarrow> plot_frame \<Rightarrow> error + 'f list" where
  "future_pred l data =
     (case Condition_Binary data of
        None \<Rightarrow> Inl (KeyError ''Condition_Binary'')
      | Some series \<Rightarrow>
          (case arima_fit l series (1, 1, 1) of
             None \<Rightarrow> Inl ModelFitError
           | Some model_fit \<Rightarrow> Inr (arima_forecast l model_fit 24)))"

section \<open>Report assembly (lines 104 to 139)\<close>

text \<open>
  The body of the \<^verbatim>\<open>with pd.ExcelWriter(...)\<close> block is a sequence of calls on the writer, run
  in the order written.  The state is the workbook's sheets, in order, and the variable
  \<^verbatim>\<open>worksheet\<close>, which refers to a sheet of the writer by its name once
  \<^verbatim>\<open>writer.sheets[...]\<close> has found it; that lookup raises \<^verbatim>\<open>KeyError\<close> for a sheet that does
  not exist.
\<close>

datatype xl_step =
    ToExcel table string
  | SheetLookup string
  | InsertImage string string bytes_io
  | Write string string

record xl_state =
  sheets :: "(string \<times> worksheet) list"
  worksheet :: "string option"

fun exec_step :: "xl_state \<Rightarrow> xl_step \<Rightarrow> error + xl_state" where
  "exec_step st (ToExcel t sheet_name) = Inr (st\<lparr>sheets := to_excel (sheets st) t sheet_name\<rparr>)"
| "exec_step st (SheetLookup sheet_name) =
     (case map_of (sheets st) sheet_name of
        None \<Rightarrow> Inl (KeyError sheet_name)
      | Some _ \<Rightarrow> Inr (st\<lparr>worksheet := Some sheet_name\<rparr>))"
| "exec_step st (InsertImage cell_str filename image_data) =
     (case worksheet st of
        None \<Rightarrow> Inl (NameError ''worksheet'')
      | Some n \<Rightarrow>
          Inr (st\<lparr>sheets := AList.map_entry n
                 (\<lambda>w. insert_image w (xl_cell_to_rowcol cell_str) filename (getvalue image_data))
                 (sheets st)\<rparr>))"
| "exec_step st (Write cell_str text) =
     (case worksheet st of
        None \<Rightarrow> Inl (NameError ''worksheet'')
      | Some n \<Rightarrow>
          Inr (st\<lparr>sheets := AList.map_entry n
                 (\<lambda>w. write_cell w (xl_cell_to_rowcol cell_str) (StrCell text))
                 (sheets st)\<rparr>))"

fun exec_steps :: "xl_state \<Rightarrow> xl_step list \<Rightarrow> error + xl_state" where
  "exec_steps st [] = Inr st"
| "exec_steps st (x # xs) =
     (case exec_step st x of Inl e \<Rightarrow> Inl e | Inr st' \<Rightarrow> exec_steps st' xs)"

definition ExcelWriter :: xl_state where
  "ExcelWriter = \<lparr>sheets = [], worksheet = None\<rparr>"

text \<open>Lines 106 to 137, one step per call on the writer or on the worksheet.\<close>

definition report_steps ::
    "('m, 'f) libs \<Rightarrow> table \<Rightarrow> plot_frame \<Rightarrow> string \<Rightarrow> xl_step list" where
  "report_steps l inp data disease_suggestion =
     (let condition_counts = value_counts (Condition data);
          pie_chart_fig = plot_condition_distribution data;
          pie_image = seek (savefig l pie_chart_fig BytesIO ''png'') 0;
          bar_chart_fig = plot_hourly_condition_counts data;
          bar_image = seek (savefig l bar_chart_fig BytesIO ''png'') 0;
          ts_chart_fig = plot_time_series data;
          ts_image = seek (savefig l ts_chart_fig BytesIO ''png'') 0
      in [ToExcel inp ''Patient Input Data'',
          ToExcel (plot_table data) ''Time Series Data'',
          ToExcel (counts_table condition_counts) ''Condition Distribution'',
          SheetLookup ''Condition Distribution'',
          InsertImage ''G2'' ''Pie Chart'' pie_image,
          InsertImage ''G20'' ''Bar Graph'' bar_image,
          InsertImage ''G40'' ''Time Series'' ts_image,
          Write ''B2'' (''Disease Suggestion: '' @ disease_suggestion)])"

text \<open>
  Leaving the \<^verbatim>\<open>with\<close> block closes the writer, which writes the whole workbook into
  \<^verbatim>\<open>report_buffer\<close>; line 139 then puts the cursor back: \<^verbatim>\<open>report_buffer.seek(0)\<close>.
\<close>

definition report_workbook ::
    "('m, 'f) libs \<Rightarrow> table \<Rightarrow> plot_frame \<Rightarrow> string \<Rightarrow> error + (string \<times> worksheet) list" where
  "report_workbook l inp data disease_suggestion =
     (case exec_steps ExcelWriter (report_steps l inp data disease_suggestion) of
        Inl e \<Rightarrow> Inl e
      | Inr st \<Rightarrow> Inr (sheets st))"

definition report_buffer ::
    "('m, 'f) libs \<Rightarrow> table \<Rightarrow> plot_frame \<Rightarrow> string \<Rightarrow> error + bytes_io" where
  "report_buffer l inp data disease_suggestion =
     (case report_workbook l inp data disease_suggestion of
        Inl e \<Rightarrow> Inl e
      | Inr book \<Rightarrow> Inr (seek (bio_write BytesIO (xlsx_bytes l book)) 0))"

section \<open>The script\<close>

text \<open>
  What a run shows on the page, in order, and the exception that ended it, if any.  The
  slider values and the instant \<^verbatim>\<open>datetime.now()\<close> returns are the inputs of a run.
\<close>

datatype element =
    Title string
  | SidebarHeader string
  | Subheader string
  | WriteText string
  | WriteTable table
  | Pyplot figure
  | DownloadButton string bytes_io string

record page =
  shown :: "element list"
  raised :: "error option"

text \<open>Whether an element of the page is a download button.\<close>

fun is_download :: "element \<Rightarrow> bool" where
  "is_download (DownloadButton label data file_name) = True"
| "is_download _ = False"

text \<open>Lines 24 to 49.\<close>

definition page_prediction :: "table \<Rightarrow> string \<Rightarrow> string \<Rightarrow> element list" where
  "page_prediction inp predicted_condition disease_suggestion =
     [Title ''Patient Condition Prediction App'',
      SidebarHeader ''Patient Input Features'',
      Subheader ''Patient Condition Prediction'',
      WriteText (''Predicted Condition: **'' @ predicted_condition @ ''**''),
      WriteText ''### Input Parameters'',
      WriteTable inp,
      WriteText ''### Suggested Disease Considerations'',
      WriteText disease_suggestion,
      Subheader ''Explore Patient Condition Data'']"

text \<open>Lines 87 to 94.\<close>

definition page_charts :: "plot_frame \<Rightarrow> element list" where
  "page_charts data =
     [WriteText ''#### Condition Distribution'',
      Pyplot (plot_condition_distribution data),
      WriteText ''#### Hourly Condition Counts'',
      Pyplot (plot_hourly_condition_counts data),
      WriteText ''#### Time Series of Patient Condition'',
      Pyplot (plot_time_series data)]"

definition run ::
    "('m, 'f) libs \<Rightarrow> int \<Rightarrow> int \<Rightarrow> int \<Rightarrow> pyfloat \<Rightarrow> int \<Rightarrow> int \<Rightarrow> page" where
  "run l systolic diastolic pulse temperature spo2 now =
     (let inp = input_data systolic diastolic pulse temperature spo2;
          predicted_condition =
            classify_patient_condition systolic diastolic pulse temperature spo2;
          disease_suggestion = disease_recommendation predicted_condition;
          out1 = page_prediction inp predicted_condition disease_suggestion;
          today = date now;
          data = plot_data predicted_condition (Timestamp today);
          out2 = out1 @ page_charts data;
          data = add_condition_binary data
      in case future_pred l data of
           Inl e \<Rightarrow> \<lparr>shown = out2, raised = Some e\<rparr>
         | Inr forecast \<Rightarrow>
             (let out3 = out2 @ [WriteText ''#### Download Report'']
              in case report_buffer l inp data disease_suggestion of
                   Inl e \<Rightarrow> \<lparr>shown = out3, raised = Some e\<rparr>
                 | Inr buffer \<Rightarrow>
                     \<lparr>shown = out3 @ [DownloadButton ''Download Report'' buffer
                                        ''patient_condition_report_with_charts.xlsx''],
                      raised = None\<rparr>))"

text \<open>
  A concrete choice of the libraries, for running the script on examples: fitting always
  succeeds, the forecast is flat, an image is three bytes and a workbook one byte per sheet.
\<close>

definition sample_libs :: "(unit, int) libs" where
  "sample_libs =
     \<lparr>arima_fit = (\<lambda>series order. Some ()),
      arima_forecast = (\<lambda>m steps. replicate steps 0),
      render = (\<lambda>fig fmt. [1, 2, 3]),
      xlsx_bytes = (\<lambda>book. replicate (length book) 7)\<rparr>"

text \<open>The same libraries with a fitting step that raises on every series.\<close>

definition failing_libs :: "(unit, int) libs" where
  "failing_libs = sample_libs\<lparr>arima_fit := (\<lambda>series order. None)\<rparr>"

section \<open>The classifier\<close>

lemma temp_window:
  "(float_le (Float a) t \<and> float_le t (Float b)) = (\<exists>r. t = Float r \<and> a \<le> r \<and> r \<le> b)"
  by (cases t) auto

lemma classify_Normal_iff:
  "classify_patient_condition s d p t o2 = ''Normal'' \<longleftrightarrow>
      90 \<le> s \<and> s \<le> 120 \<and> 60 \<le> d \<and> d \<le> 80 \<and> 60 \<le> p \<and> p \<le> 100
      \<and> (\<exists>r. t = Float r \<and> 36.5 \<le> r \<and> r \<le> 37.5) \<and> 95 \<le> o2 \<and> o2 \<le> 100"
proof -
  have w: "(float_le (Float 36.5) t \<and> float_le t (Float 37.5))
      = (\<exists>r. t = Float r \<and> 36.5 \<le> r \<and> r \<le> 37.5)"
    by (rule temp_window)
  show ?thesis
    unfolding classify_patient_condition_def using w by (auto simp del: float_le.simps)
qed

lemma classify_two_valued:
  "classify_patient_condition s d p t o2 \<noteq> ''Normal'' \<longleftrightarrow>
     classify_patient_condition s d p t o2 = ''At Risk''"
  by (simp add: classify_patient_condition_def)

lemma classify_cases:
  "classify_patient_condition s d p t o2 = ''Normal''
   \<or> classify_patient_condition s d p t o2 = ''At Risk''"
  by (simp add: classify_patient_condition_def)

lemma classify_corners:
  "list_all (\<lambda>(s', d', p', t', o'). classify_patient_condition s' d' p' (Float t') o' = ''Normal'')
        (List.product [90, 120] (List.product [60, 80] (List.product [60, 100]
          (List.product [36.5, 37.5] [95, 100]))))"
  by (simp add: classify_patient_condition_def)

lemma classify_nudged:
  "classify_patient_condition 89 d p t o2 = ''At Risk''"
  "classify_patient_condition 121 d p t o2 = ''At Risk''"
  "classify_patient_condition s 59 p t o2 = ''At Risk''"
  "classify_patient_condition s 81 p t o2 = ''At Risk''"
  "classify_patient_condition s d 59 t o2 = ''At Risk''"
  "classify_patient_condition s d 101 t o2 = ''At Risk''"
  "classify_patient_condition s d p (Float 35.5) o2 = ''At Risk''"
  "classify_patient_condition s d p (Float 38.5) o2 = ''At Risk''"
  "classify_patient_condition s d p t 94 = ''At Risk''"
  "classify_patient_condition s d p t 101 = ''At Risk''"
  by (simp_all add: classify_patient_condition_def)

text \<open>
  Claim C1.  The classifier returns \<open>''Normal''\<close> exactly when all five readings lie in
  their inclusive ranges (systolic 90 to 120, diastolic 60 to 80, pulse 60 to 100,
  temperature 36.5 to 37.5, SpO2 95 to 100) and \<open>''At Risk''\<close> in every other case, NaN
  and the infinities included: it has no failing branch.  Each of the 32 readings with
  every value at an end of its range is \<open>''Normal''\<close>, and a reading with one value one unit
  outside its range is \<open>''At Risk''\<close> whatever the other four are.
\<close>

theorem classify_rule:
  "(classify_patient_condition s d p t o2 = ''Normal'' \<longleftrightarrow>
      90 \<le> s \<and> s \<le> 120 \<and> 60 \<le> d \<and> d \<le> 80 \<and> 60 \<le> p \<and> p \<le> 100
      \<and> (\<exists>r. t = Float r \<and> 36.5 \<le> r \<and> r \<le> 37.5) \<and> 95 \<le> o2 \<and> o2 \<le> 100)
   \<and> (classify_patient_condition s d p t o2 \<noteq> ''Normal'' \<longleftrightarrow>
        classify_patient_condition s d p t o2 = ''At Risk'')
   \<and> list_all (\<lambda>(s', d', p', t', o'). classify_patient_condition s' d' p' (Float t') o' = ''Normal'')
        (List.product [90, 120] (List.product [60, 80] (List.product [60, 100]
          (List.product [36.5, 37.5] [95, 100]))))
   \<and> classify_patient_condition 89 d p t o2 = ''At Risk''
   \<and> classify_patient_condition 121 d p t o2 = ''At Risk''
   \<and> classify_patient_condition s 59 p t o2 = ''At Risk''
   \<and> classify_patient_condition s 81 p t o2 = ''At Risk''
   \<and> classify_patient_condition s d 59 t o2 = ''At Risk''
   \<and> classify_patient_condition s d 101 t o2 = ''At Risk''
   \<and> classify_patient_condition s d p (Float 35.5) o2 = ''At Risk''
   \<and> classify_patient_condition s d p (Float 38.5) o2 = ''At Risk''
   \<and> classify_patient_condition s d p t 94 = ''At Risk''
   \<and> classify_patient_condition s d p t 101 = ''At Risk''"
  using classify_Normal_iff [of s d p t o2] classify_two_valued [of s d p t o2]
    classify_corners classify_nudged
  by (simp only: simp_thms)

section \<open>The advisor\<close>

text \<open>
  Claim C7.  The advice depends on the label alone and is a fixed string for each label:
  the reassurance for \<open>''Normal''\<close>, and for \<open>''At Risk''\<close> the sentence naming hypertension,
  heart disease, respiratory issues or other conditions requiring further medical
  assessment.  Being a function, it gives the same string for the same label every time.
\<close>

theorem disease_recommendation_fixed:
  "disease_recommendation ''Normal''
     = ''No immediate diseases suggested based on normal readings.''
   \<and> disease_recommendation ''At Risk''
     = ''Possibilities include hypertension, heart disease, respiratory issues, or other conditions requiring further medical assessment.''"
  by (simp add: disease_recommendation_def)

section \<open>The timeline and the risk series\<close>

lemma length_time_data: "length (time_data t) = 24"
  by (simp add: time_data_def date_range_def)

lemma nth_time_data: "i < 24 \<Longrightarrow> time_data t ! i = t + int i * hour"
  by (simp add: time_data_def date_range_def)

lemma length_condition_data: "length (condition_data label) = 24"
  by (simp add: condition_data_def)

lemma condition_data_Normal:
  "condition_data ''Normal'' = replicate 18 ''Normal'' @ replicate 6 ''At Risk''"
  by (simp add: condition_data_def)

lemma condition_data_other:
  "label \<noteq> ''Normal'' \<Longrightarrow> condition_data label = replicate 18 ''At Risk'' @ replicate 6 ''Normal''"
  by (simp add: condition_data_def)

lemma hour_pos: "0 < hour"
  by (simp add: hour_def)

text \<open>
  Claim C3.  For every label and every start instant \<open>t\<close> (the script passes the midnight
  of today), the timeline has 24 timestamps and 24 labels; the first timestamp is \<open>t\<close>,
  each next one is exactly one hour later, so they increase strictly.  For the label
  \<open>''Normal''\<close> the first 18 labels are \<open>''Normal''\<close> and the last 6 \<open>''At Risk''\<close>; for
  \<open>''At Risk''\<close>, as for any label that is not \<open>''Normal''\<close>, the split is mirrored.
\<close>

theorem timeline_shape:
  "length (Time (plot_data label t)) = 24
   \<and> length (Condition (plot_data label t)) = 24
   \<and> Time (plot_data label t) ! 0 = t
   \<and> (\<forall>i<23. Time (plot_data label t) ! Suc i = Time (plot_data label t) ! i + hour)
   \<and> (\<forall>i j. i < j \<and> j < 24 \<longrightarrow> Time (plot_data label t) ! i < Time (plot_data label t) ! j)
   \<and> (label = ''Normal'' \<longrightarrow>
         take 18 (Condition (plot_data label t)) = replicate 18 ''Normal''
         \<and> drop 18 (Condition (plot_data label t)) = replicate 6 ''At Risk'')
   \<and> (label \<noteq> ''Normal'' \<longrightarrow>
         take 18 (Condition (plot_data label t)) = replicate 18 ''At Risk''
         \<and> drop 18 (Condition (plot_data label t)) = replicate 6 ''Normal'')
   \<and> take 18 (Condition (plot_data ''At Risk'' t)) = replicate 18 ''At Risk''
   \<and> drop 18 (Condition (plot_data ''At Risk'' t)) = replicate 6 ''Normal''"
proof -
  have steps: "\<forall>i<23. time_data t ! Suc i = time_data t ! i + hour"
    by (simp add: nth_time_data algebra_simps)
  have incr: "\<forall>i j. i < j \<and> j < 24 \<longrightarrow> time_data t ! i < time_data t ! j"
  proof (intro allI impI)
    fix i j :: nat
    assume ij: "i < j \<and> j < 24"
    then have "int i * hour < int j * hour"
      using hour_pos by simp
    with ij show "time_data t ! i < time_data t ! j"
      by (simp add: nth_time_data)
  qed
  have first: "time_data t ! 0 = t"
    by (simp add: nth_time_data)
  have risk: "condition_data ''At Risk'' = replicate 18 ''At Risk'' @ replicate 6 ''Normal''"
    by (rule condition_data_other) simp
  show ?thesis
    using steps incr first risk
    by (simp add: plot_data_def length_time_data length_condition_data
        condition_data_Normal condition_data_other)
qed

text \<open>The timeline of C3 at the label \<open>''Normal''\<close>, at another label and at hour 7.\<close>

theorem timeline_shape_witness:
  "(7::nat) < 23
   \<and> Time (plot_data ''Normal'' 0) ! Suc 7 = Time (plot_data ''Normal'' 0) ! 7 + hour
   \<and> Time (plot_data ''Normal'' 0) ! 7 < Time (plot_data ''Normal'' 0) ! 8
   \<and> take 18 (Condition (plot_data ''Normal'' 0)) = replicate 18 ''Normal''
   \<and> drop 18 (Condition (plot_data ''Normal'' 0)) = replicate 6 ''At Risk''
   \<and> take 18 (Condition (plot_data ''Other'' 0)) = replicate 18 ''At Risk''
   \<and> drop 18 (Condition (plot_data ''Other'' 0)) = replicate 6 ''Normal''"
proof -
  note n = timeline_shape [of "''Normal''" 0]
  note r = timeline_shape [of "''Other''" 0]
  have q: "(7::nat) < 23" and q': "(7::nat) < 8 \<and> (8::nat) < 24"
    by simp_all
  from n have step: "\<forall>i<23. Time (plot_data ''Normal'' 0) ! Suc i = Time (plot_data ''Normal'' 0) ! i + hour"
    by blast
  from n have incr: "\<forall>i j. i < j \<and> j < 24 \<longrightarrow>
      Time (plot_data ''Normal'' 0) ! i < Time (plot_data ''Normal'' 0) ! j"
    by blast
  have a: "Time (plot_data ''Normal'' 0) ! Suc 7 = Time (plot_data ''Normal'' 0) ! 7 + hour"
    using step q by blast
  have b: "Time (plot_data ''Normal'' 0) ! 7 < Time (plot_data ''Normal'' 0) ! 8"
    using incr q' by blast
  have c: "take 18 (Condition (plot_data ''Normal'' 0)) = replicate 18 ''Normal''
      \<and> drop 18 (Condition (plot_data ''Normal'' 0)) = replicate 6 ''At Risk''"
    using n by blast
  have ne: "''Other'' \<noteq> ''Normal''"
    by simp
  have d: "take 18 (Condition (plot_data ''Other'' 0)) = replicate 18 ''At Risk''
      \<and> drop 18 (Condition (plot_data ''Other'' 0)) = replicate 6 ''Normal''"
    using r ne by blast
  show ?thesis
    using q a b c d by blast
qed

lemma length_series: "length (map condition_binary (condition_data label)) = 24"
  by (simp add: length_condition_data)

text \<open>
  Claim C4.  The binary risk series that line 97 adds to the frame has 24 entries, one per
  timeline point: entry \<open>i\<close> is 1 exactly when label \<open>i\<close> is \<open>''At Risk''\<close> and 0 exactly
  when it is not.  The line chart of \<^verbatim>\<open>plot_time_series\<close> draws the same series against
  the timestamps.
\<close>

theorem series_aligned:
  "Condition_Binary (add_condition_binary (plot_data label t))
     = Some (map condition_binary (Condition (plot_data label t)))
   \<and> length (map condition_binary (Condition (plot_data label t))) = 24
   \<and> length (Condition (plot_data label t)) = 24
   \<and> (\<forall>i<24. (map condition_binary (Condition (plot_data label t)) ! i = 1
                  \<longleftrightarrow> Condition (plot_data label t) ! i = ''At Risk'')
              \<and> (map condition_binary (Condition (plot_data label t)) ! i = 0
                  \<longleftrightarrow> Condition (plot_data label t) ! i \<noteq> ''At Risk''))
   \<and> plot_time_series (add_condition_binary (plot_data label t))
       = Line (zip (Time (plot_data label t))
                   (map condition_binary (Condition (plot_data label t))))
           ''Condition (1 = At Risk, 0 = Normal)''"
  by (simp add: add_condition_binary_def plot_data_def length_condition_data
      condition_binary_def plot_time_series_def)

text \<open>The series of C4 at index 20 of the timeline of a \<open>''Normal''\<close> reading.\<close>

theorem series_aligned_witness:
  "(20::nat) < 24
   \<and> map condition_binary (Condition (plot_data ''Normal'' 0)) ! 20 = 1
   \<and> Condition (plot_data ''Normal'' 0) ! 20 = ''At Risk''"
proof -
  note n = series_aligned [of "''Normal''" 0]
  have q: "(20::nat) < 24"
    by simp
  have v: "Condition (plot_data ''Normal'' 0) ! 20 = ''At Risk''"
    by (simp add: plot_data_def condition_data_def nth_append)
  from n have "\<forall>i<24. (map condition_binary (Condition (plot_data ''Normal'' 0)) ! i = 1
                  \<longleftrightarrow> Condition (plot_data ''Normal'' 0) ! i = ''At Risk'')
              \<and> (map condition_binary (Condition (plot_data ''Normal'' 0)) ! i = 0
                  \<longleftrightarrow> Condition (plot_data ''Normal'' 0) ! i \<noteq> ''At Risk'')"
    by blast
  with q v have "map condition_binary (Condition (plot_data ''Normal'' 0)) ! 20 = 1"
    by blast
  with q v show ?thesis
    by blast
qed

text \<open>
  Claim C9.  Two runs with the same slider values whose instants fall on the same calendar
  date agree on everything: the timeline is built from \<^verbatim>\<open>datetime.now().date()\<close>, so the
  label, the advice, the 24 timestamps and labels and the binary series are the same, and
  with the same libraries the whole run is.
\<close>

theorem same_date_same_run:
  "date now1 = date now2 \<Longrightarrow>
     run l s d p t o2 now1 = run l s d p t o2 now2
     \<and> add_condition_binary (plot_data (classify_patient_condition s d p t o2) (Timestamp (date now1)))
       = add_condition_binary (plot_data (classify_patient_condition s d p t o2) (Timestamp (date now2)))"
  by (simp add: run_def)

text \<open>Two instants of C9, almost a day apart, on the same date.\<close>

theorem same_date_same_run_witness:
  "date 100 = date 86399999999 \<and> (100::int) \<noteq> 86399999999
   \<and> run sample_libs 110 75 85 (Float 37) 98 100 = run sample_libs 110 75 85 (Float 37) 98 86399999999"
proof -
  have d: "date 100 = date 86399999999"
    by (simp add: date_def hour_def)
  show ?thesis
    using d same_date_same_run [OF d, of sample_libs 110 75 85 "Float 37" 98]
    by simp
qed

section \<open>Forecasting\<close>

lemma series_of_run:
  "Condition_Binary (add_condition_binary (plot_data label t))
     = Some (map condition_binary (condition_data label))"
  by (simp add: add_condition_binary_def plot_data_def)

lemma future_pred_fit_fails:
  "arima_fit l (map condition_binary (condition_data label)) (1, 1, 1) = None
   \<Longrightarrow> future_pred l (add_condition_binary (plot_data label t)) = Inl ModelFitError"
  by (simp add: future_pred_def series_of_run)

lemma future_pred_fit_ok:
  "arima_fit l (map condition_binary (condition_data label)) (1, 1, 1) = Some m
   \<Longrightarrow> future_pred l (add_condition_binary (plot_data label t)) = Inr (arima_forecast l m 24)"
  by (simp add: future_pred_def series_of_run)

lemma run_fit_fails:
  "arima_fit l (map condition_binary (condition_data (classify_patient_condition s d p t o2))) (1, 1, 1) = None
   \<Longrightarrow> run l s d p t o2 now =
       \<lparr>shown = page_prediction (input_data s d p t o2) (classify_patient_condition s d p t o2)
                  (disease_recommendation (classify_patient_condition s d p t o2))
                @ page_charts (plot_data (classify_patient_condition s d p t o2) (Timestamp (date now))),
        raised = Some ModelFitError\<rparr>"
  by (simp add: run_def Let_def future_pred_fit_fails)

lemma no_download_before_forecast:
  "filter is_download (page_prediction inp label advice) = []"
  "filter is_download (page_charts data) = []"
  by (simp_all add: page_prediction_def page_charts_def)

text \<open>
  Claim C2 says that a fitting error is caught and the report is generated all the same.
  The script has no handler: with a fitting step that raises, the run of the reading
  (110, 75, 85, 37.0, 98) ends with the model-fitting error and shows no download button.
\<close>

theorem fit_failure_aborts:
  "raised (run failing_libs 110 75 85 (Float 37) 98 0) = Some ModelFitError
   \<and> filter is_download (shown (run failing_libs 110 75 85 (Float 37) 98 0)) = []"
proof -
  have "arima_fit failing_libs
      (map condition_binary (condition_data (classify_patient_condition 110 75 85 (Float 37) 98)))
      (1, 1, 1) = None"
    by (simp add: failing_libs_def)
  then show ?thesis
    by (simp add: run_fit_fails no_download_before_forecast)
qed

text \<open>
  Claim C2, amended.  When the fitting raises, the error leaves the script at line 99: the
  run ends with it, the page shows what lines 24 to 94 wrote (the prediction, the input
  table, the advice and the three charts) and no download button, so no report.
\<close>

theorem fit_failure_propagates:
  "arima_fit l (map condition_binary (condition_data (classify_patient_condition s d p t o2))) (1, 1, 1) = None
   \<Longrightarrow> raised (run l s d p t o2 now) = Some ModelFitError
       \<and> shown (run l s d p t o2 now)
           = page_prediction (input_data s d p t o2) (classify_patient_condition s d p t o2)
               (disease_recommendation (classify_patient_condition s d p t o2))
             @ page_charts (plot_data (classify_patient_condition s d p t o2) (Timestamp (date now)))
       \<and> filter is_download (shown (run l s d p t o2 now)) = []"
  by (simp add: run_fit_fails no_download_before_forecast)

text \<open>The run of the reading (150, 95, 110, 38.5, 90) with a fitting step that raises.\<close>

theorem fit_failure_propagates_witness:
  "arima_fit failing_libs
      (map condition_binary (condition_data (classify_patient_condition 150 95 110 (Float 38.5) 90)))
      (1, 1, 1) = None
   \<and> raised (run failing_libs 150 95 110 (Float 38.5) 90 0) = Some ModelFitError
   \<and> filter is_download (shown (run failing_libs 150 95 110 (Float 38.5) 90 0)) = []"
proof -
  have f: "arima_fit failing_libs
      (map condition_binary (condition_data (classify_patient_condition 150 95 110 (Float 38.5) 90)))
      (1, 1, 1) = None"
    by (simp add: failing_libs_def)
  show ?thesis
    using f fit_failure_propagates [OF f, of 0] by blast
qed

lemma report_steps_forecast_update:
  "report_steps (l\<lparr>arima_forecast := f\<rparr>) inp data advice = report_steps l inp data advice"
  by (simp add: report_steps_def savefig_def)

lemma report_buffer_forecast_update:
  "report_buffer (l\<lparr>arima_forecast := f\<rparr>) inp data advice = report_buffer l inp data advice"
  by (simp add: report_buffer_def report_workbook_def report_steps_forecast_update
      split: sum.splits)

text \<open>
  Claim C10.  \<^verbatim>\<open>future_pred\<close> is computed and never used: replacing the library's forecast
  by any other function leaves the whole run as it is, the page shown, the charts and the
  bytes of the report behind the download button.
\<close>

theorem forecast_never_consumed:
  "run (l\<lparr>arima_forecast := f\<rparr>) s d p t o2 now = run l s d p t o2 now"
  by (simp add: run_def Let_def future_pred_def report_buffer_forecast_update
      split: option.splits sum.splits)

section \<open>The report\<close>

lemma xl_anchor_cells:
  "xl_cell_to_rowcol ''G2'' = (1, 6)"
  "xl_cell_to_rowcol ''G20'' = (19, 6)"
  "xl_cell_to_rowcol ''G40'' = (39, 6)"
  "xl_cell_to_rowcol ''B2'' = (1, 1)"
  by (simp_all add: xl_cell_to_rowcol_def)

lemma savefig_png:
  "getvalue (seek (savefig l fig BytesIO fmt) 0) = render l fig fmt"
  by (simp add: getvalue_def seek_def savefig_def bio_write_def BytesIO_def)

lemma exec_report_steps:
  "exec_steps ExcelWriter (report_steps l inp data advice)
   = Inr \<lparr>sheets =
       [(''Patient Input Data'', write_cells add_worksheet (excel_cells inp)),
        (''Time Series Data'', write_cells add_worksheet (excel_cells (plot_table data))),
        (''Condition Distribution'',
          write_cell
            (insert_image
              (insert_image
                (insert_image
                  (write_cells add_worksheet
                    (excel_cells (counts_table (value_counts (Condition data)))))
                  (1, 6) ''Pie Chart'' (render l (plot_condition_distribution data) ''png''))
                (19, 6) ''Bar Graph'' (render l (plot_hourly_condition_counts data) ''png''))
              (39, 6) ''Time Series'' (render l (plot_time_series data) ''png''))
            (1, 1) (StrCell (''Disease Suggestion: '' @ advice)))],
      worksheet = Some ''Condition Distribution''\<rparr>"
  by (simp add: report_steps_def Let_def ExcelWriter_def to_excel_def xl_anchor_cells savefig_png)

lemma images_write_cell: "images (write_cell w rc v) = images w"
  by (simp add: write_cell_def)

lemma images_write_cells: "images (write_cells w rcvs) = images w"
  unfolding write_cells_def
  by (induction rcvs arbitrary: w) (simp_all add: images_write_cell)

lemma cells_insert_image: "cells (insert_image w rc n b) = cells w"
  by (simp add: insert_image_def)

lemma images_insert_image: "images (insert_image w rc n b) = images w @ [(rc, n, b)]"
  by (simp add: insert_image_def)

lemma cells_write_cell: "cells (write_cell w rc v) = AList.update rc v (cells w)"
  by (simp add: write_cell_def)

lemma value_counts_split:
  "value_counts (replicate 18 ''Normal'' @ replicate 6 ''At Risk'')
     = [(''Normal'', 18), (''At Risk'', 6)]"
  "value_counts (replicate 18 ''At Risk'' @ replicate 6 ''Normal'')
     = [(''At Risk'', 18), (''Normal'', 6)]"
  by code_simp+

lemma value_counts_Normal:
  "value_counts (condition_data ''Normal'') = [(''Normal'', 18), (''At Risk'', 6)]"
  by (simp only: condition_data_Normal value_counts_split)

lemma value_counts_other:
  assumes "label \<noteq> ''Normal''"
  shows "value_counts (condition_data label) = [(''At Risk'', 18), (''Normal'', 6)]"
  by (simp only: condition_data_other [OF assms] value_counts_split)

lemma counts_cells:
  "cells (write_cells add_worksheet (excel_cells (counts_table [(a, m), (b, n)])))
   = [((0, 1), StrCell ''count''), ((0, 0), StrCell ''Condition''),
      ((1, 0), StrCell a), ((2, 0), StrCell b),
      ((1, 1), IntCell (int m)), ((2, 1), IntCell (int n))]"
  by (simp add: write_cells_def write_cell_def add_worksheet_def excel_cells_def counts_table_def)

lemma report_workbook_eq:
  "report_workbook l inp data advice
   = Inr [(''Patient Input Data'', write_cells add_worksheet (excel_cells inp)),
        (''Time Series Data'', write_cells add_worksheet (excel_cells (plot_table data))),
        (''Condition Distribution'',
          write_cell
            (insert_image
              (insert_image
                (insert_image
                  (write_cells add_worksheet
                    (excel_cells (counts_table (value_counts (Condition data)))))
                  (1, 6) ''Pie Chart'' (render l (plot_condition_distribution data) ''png''))
                (19, 6) ''Bar Graph'' (render l (plot_hourly_condition_counts data) ''png''))
              (39, 6) ''Time Series'' (render l (plot_time_series data) ''png''))
            (1, 1) (StrCell (''Disease Suggestion: '' @ advice)))]"
  by (simp add: report_workbook_def exec_report_steps)

lemma rewound_buffer: "seek (bio_write BytesIO bs) 0 = \<lparr>buf = bs, pos = 0\<rparr>"
  by (simp add: seek_def bio_write_def BytesIO_def)

lemma report_buffer_eq:
  "report_workbook l inp data advice = Inr book
   \<Longrightarrow> report_buffer l inp data advice = Inr \<lparr>buf = xlsx_bytes l book, pos = 0\<rparr>"
  by (simp add: report_buffer_def rewound_buffer)

lemma run_eq:
  "run l s d p t o2 now =
     (case future_pred l (add_condition_binary
              (plot_data (classify_patient_condition s d p t o2) (Timestamp (date now)))) of
        Inl e \<Rightarrow>
          \<lparr>shown = page_prediction (input_data s d p t o2) (classify_patient_condition s d p t o2)
                     (disease_recommendation (classify_patient_condition s d p t o2))
                   @ page_charts (plot_data (classify_patient_condition s d p t o2)
                       (Timestamp (date now))),
           raised = Some e\<rparr>
      | Inr forecast \<Rightarrow>
          (case report_buffer l (input_data s d p t o2)
                  (add_condition_binary
                    (plot_data (classify_patient_condition s d p t o2) (Timestamp (date now))))
                  (disease_recommendation (classify_patient_condition s d p t o2)) of
             Inl e \<Rightarrow>
               \<lparr>shown = page_prediction (input_data s d p t o2)
                     (classify_patient_condition s d p t o2)
                     (disease_recommendation (classify_patient_condition s d p t o2))
                   @ page_charts (plot_data (classify_patient_condition s d p t o2)
                       (Timestamp (date now)))
                   @ [WriteText ''#### Download Report''],
                raised = Some e\<rparr>
           | Inr buffer \<Rightarrow>
               \<lparr>shown = page_prediction (input_data s d p t o2)
                     (classify_patient_condition s d p t o2)
                     (disease_recommendation (classify_patient_condition s d p t o2))
                   @ page_charts (plot_data (classify_patient_condition s d p t o2)
                       (Timestamp (date now)))
                   @ [WriteText ''#### Download Report'',
                      DownloadButton ''Download Report'' buffer
                        ''patient_condition_report_with_charts.xlsx''],
                raised = None\<rparr>))"
  by (simp add: run_def Let_def split: sum.splits)

lemma downloads_of_run:
  "raised (run l s d p t o2 now) = None \<Longrightarrow>
   report_buffer l (input_data s d p t o2)
      (add_condition_binary
         (plot_data (classify_patient_condition s d p t o2) (Timestamp (date now))))
      (disease_recommendation (classify_patient_condition s d p t o2)) = Inr buffer \<Longrightarrow>
   filter is_download (shown (run l s d p t o2 now))
     = [DownloadButton ''Download Report'' buffer ''patient_condition_report_with_charts.xlsx'']"
  by (simp add: run_eq no_download_before_forecast split: sum.splits)

lemma annotation_cell_unique:
  assumes "vc = [(a, m), (b, n)]" and "a \<in> {''Normal'', ''At Risk''}" and "b \<in> {''Normal'', ''At Risk''}"
  shows "filter (\<lambda>rcv. snd rcv = StrCell (''Disease Suggestion: '' @ advice))
      (cells (write_cell
                (insert_image (insert_image (insert_image
                   (write_cells add_worksheet (excel_cells (counts_table vc)))
                   rc1 n1 b1) rc2 n2 b2) rc3 n3 b3)
                (1, 1) (StrCell (''Disease Suggestion: '' @ advice))))
    = [((1, 1), StrCell (''Disease Suggestion: '' @ advice))]"
  using assms
  by (auto simp add: cells_write_cell cells_insert_image counts_cells)

text \<open>
  The annotation goes to B2, the cell where \<^verbatim>\<open>to_excel\<close> has put the count of the first row
  of the counts: the sheet keeps the second count only.
\<close>

lemma annotation_replaces_first_count:
  "cells (write_cell
            (write_cells add_worksheet
               (excel_cells (counts_table (value_counts (condition_data ''Normal'')))))
            (xl_cell_to_rowcol ''B2'') (StrCell (''Disease Suggestion: '' @ advice)))
   = [((0, 1), StrCell ''count''), ((0, 0), StrCell ''Condition''),
      ((1, 0), StrCell ''Normal''), ((2, 0), StrCell ''At Risk''),
      ((1, 1), StrCell (''Disease Suggestion: '' @ advice)), ((2, 1), IntCell 6)]"
  by (simp add: value_counts_Normal counts_cells cells_write_cell xl_anchor_cells)

lemma Condition_of_run: "Condition (add_condition_binary (plot_data label t)) = condition_data label"
  by (simp add: add_condition_binary_def plot_data_def)

lemma value_counts_of_run:
  "\<exists>a m b n. value_counts (condition_data label) = [(a, m), (b, n)]
     \<and> a \<in> {''Normal'', ''At Risk''} \<and> b \<in> {''Normal'', ''At Risk''}"
proof (cases "label = ''Normal''")
  case True
  then show ?thesis
    using value_counts_Normal by auto
next
  case False
  then show ?thesis
    using value_counts_other [OF False] by auto
qed

text \<open>
  Claim C5.  A run that ends without an exception has written a workbook with exactly the
  three sheets \<^verbatim>\<open>Patient Input Data\<close>, \<^verbatim>\<open>Time Series Data\<close> and \<^verbatim>\<open>Condition Distribution\<close>,
  in this order.  The first two hold no image; the third holds exactly three, the PNG
  renderings of the pie chart, the bar chart and the time series, anchored at the distinct
  cells G2, G20 and G40.  Exactly one cell of that sheet, B2, carries the advice, behind
  the prefix \<^verbatim>\<open>Disease Suggestion: \<close>.  The page has one download button: its data are the
  bytes of this workbook and its file name is \<^verbatim>\<open>patient_condition_report_with_charts.xlsx\<close>.
\<close>

theorem report_contents:
  fixes l :: "('m, 'f) libs"
  defines "label \<equiv> \<lambda>s d p t o2. classify_patient_condition s d p t o2"
  defines "advice \<equiv> \<lambda>s d p t o2. disease_recommendation (label s d p t o2)"
  defines "data \<equiv> \<lambda>s d p t o2 now.
             add_condition_binary (plot_data (label s d p t o2) (Timestamp (date now)))"
  assumes produced: "raised (run l s d p t o2 now) = None"
  shows "\<exists>book sheet.
      report_workbook l (input_data s d p t o2) (data s d p t o2 now) (advice s d p t o2) = Inr book
    \<and> map fst book = [''Patient Input Data'', ''Time Series Data'', ''Condition Distribution'']
    \<and> map (\<lambda>nw. length (images (snd nw))) book = [0, 0, 3]
    \<and> map_of book ''Condition Distribution'' = Some sheet
    \<and> images sheet =
        [(xl_cell_to_rowcol ''G2'', ''Pie Chart'',
            render l (plot_condition_distribution (data s d p t o2 now)) ''png''),
         (xl_cell_to_rowcol ''G20'', ''Bar Graph'',
            render l (plot_hourly_condition_counts (data s d p t o2 now)) ''png''),
         (xl_cell_to_rowcol ''G40'', ''Time Series'',
            render l (plot_time_series (data s d p t o2 now)) ''png'')]
    \<and> distinct (map fst (images sheet))
    \<and> filter (\<lambda>rcv. snd rcv = StrCell (''Disease Suggestion: '' @ advice s d p t o2))
         (cells sheet)
        = [(xl_cell_to_rowcol ''B2'', StrCell (''Disease Suggestion: '' @ advice s d p t o2))]
    \<and> filter is_download (shown (run l s d p t o2 now))
        = [DownloadButton ''Download Report'' \<lparr>buf = xlsx_bytes l book, pos = 0\<rparr>
             ''patient_condition_report_with_charts.xlsx'']"
proof -
  let ?inp = "input_data s d p t o2"
  let ?data = "data s d p t o2 now"
  let ?advice = "advice s d p t o2"
  obtain a m b n where vc: "value_counts (Condition ?data) = [(a, m), (b, n)]"
    and a: "a \<in> {''Normal'', ''At Risk''}" and b: "b \<in> {''Normal'', ''At Risk''}"
    using value_counts_of_run [of "label s d p t o2"]
    unfolding data_def Condition_of_run by blast
  define sheet where "sheet =
    write_cell
      (insert_image
        (insert_image
          (insert_image
            (write_cells add_worksheet
              (excel_cells (counts_table (value_counts (Condition ?data)))))
            (1, 6) ''Pie Chart'' (render l (plot_condition_distribution ?data) ''png''))
          (19, 6) ''Bar Graph'' (render l (plot_hourly_condition_counts ?data) ''png''))
        (39, 6) ''Time Series'' (render l (plot_time_series ?data) ''png''))
      (1, 1) (StrCell (''Disease Suggestion: '' @ ?advice))"
  define book where "book =
    [(''Patient Input Data'', write_cells add_worksheet (excel_cells ?inp)),
     (''Time Series Data'', write_cells add_worksheet (excel_cells (plot_table ?data))),
     (''Condition Distribution'', sheet)]"
  have wb: "report_workbook l ?inp ?data ?advice = Inr book"
    unfolding book_def sheet_def by (rule report_workbook_eq)
  have names: "map fst book
      = [''Patient Input Data'', ''Time Series Data'', ''Condition Distribution'']"
    by (simp add: book_def)
  have imgs: "images sheet =
        [(xl_cell_to_rowcol ''G2'', ''Pie Chart'',
            render l (plot_condition_distribution ?data) ''png''),
         (xl_cell_to_rowcol ''G20'', ''Bar Graph'',
            render l (plot_hourly_condition_counts ?data) ''png''),
         (xl_cell_to_rowcol ''G40'', ''Time Series'',
            render l (plot_time_series ?data) ''png'')]"
    by (simp add: sheet_def images_write_cell images_insert_image images_write_cells
        add_worksheet_def xl_anchor_cells)
  have counts: "map (\<lambda>nw. length (images (snd nw))) book = [0, 0, 3]"
    by (simp add: book_def imgs images_write_cells add_worksheet_def)
  have lookup: "map_of book ''Condition Distribution'' = Some sheet"
    by (simp add: book_def)
  have dist: "distinct (map fst (images sheet))"
    by (simp add: imgs xl_anchor_cells)
  have ann: "filter (\<lambda>rcv. snd rcv = StrCell (''Disease Suggestion: '' @ ?advice)) (cells sheet)
        = [(xl_cell_to_rowcol ''B2'', StrCell (''Disease Suggestion: '' @ ?advice))]"
    unfolding sheet_def xl_anchor_cells
    by (rule annotation_cell_unique [OF vc a b])
  have buf: "report_buffer l ?inp ?data ?advice = Inr \<lparr>buf = xlsx_bytes l book, pos = 0\<rparr>"
    by (rule report_buffer_eq [OF wb])
  have dl: "filter is_download (shown (run l s d p t o2 now))
        = [DownloadButton ''Download Report'' \<lparr>buf = xlsx_bytes l book, pos = 0\<rparr>
             ''patient_condition_report_with_charts.xlsx'']"
    using downloads_of_run [OF produced] buf
    unfolding data_def advice_def label_def by simp
  show ?thesis
    apply (rule exI [of _ book])
    apply (rule exI [of _ sheet])
    apply (intro conjI)
           apply (rule wb)
          apply (rule names)
         apply (rule counts)
        apply (rule lookup)
       apply (rule imgs)
      apply (rule dist)
     apply (rule ann)
    apply (rule dl)
    done
qed

lemma run_sample_ok: "raised (run sample_libs s d p t o2 now) = None"
proof -
  have "future_pred sample_libs
      (add_condition_binary (plot_data (classify_patient_condition s d p t o2) (Timestamp (date now))))
      = Inr (replicate 24 0)"
    by (simp add: future_pred_def series_of_run sample_libs_def)
  then show ?thesis
    by (simp add: run_eq report_buffer_def report_workbook_eq)
qed

text \<open>The report of C5 for the reading (110, 75, 85, 37.0, 98) with the sample libraries.\<close>

theorem report_contents_witness:
  "raised (run sample_libs 110 75 85 (Float 37) 98 0) = None
   \<and> (\<exists>book. report_workbook sample_libs (input_data 110 75 85 (Float 37) 98)
          (add_condition_binary (plot_data
             (classify_patient_condition 110 75 85 (Float 37) 98) (Timestamp (date 0))))
          (disease_recommendation (classify_patient_condition 110 75 85 (Float 37) 98)) = Inr book
        \<and> map fst book = [''Patient Input Data'', ''Time Series Data'', ''Condition Distribution'']
        \<and> filter is_download (shown (run sample_libs 110 75 85 (Float 37) 98 0))
            = [DownloadButton ''Download Report'' \<lparr>buf = xlsx_bytes sample_libs book, pos = 0\<rparr>
                 ''patient_condition_report_with_charts.xlsx''])"
proof -
  have ok: "raised (run sample_libs 110 75 85 (Float 37) 98 0) = None"
    by (rule run_sample_ok)
  show ?thesis
    using ok report_contents [OF ok]
    by (elim exE conjE) (intro conjI exI, assumption+)
qed

lemma report_steps_list:
  "report_steps l inp data advice =
     [ToExcel inp ''Patient Input Data'',
      ToExcel (plot_table data) ''Time Series Data'',
      ToExcel (counts_table (value_counts (Condition data))) ''Condition Distribution'',
      SheetLookup ''Condition Distribution'',
      InsertImage ''G2'' ''Pie Chart''
        (seek (savefig l (plot_condition_distribution data) BytesIO ''png'') 0),
      InsertImage ''G20'' ''Bar Graph''
        (seek (savefig l (plot_hourly_condition_counts data) BytesIO ''png'') 0),
      InsertImage ''G40'' ''Time Series''
        (seek (savefig l (plot_time_series data) BytesIO ''png'') 0),
      Write ''B2'' (''Disease Suggestion: '' @ advice)]"
  by (simp add: report_steps_def Let_def)

lemma length_report_steps: "length (report_steps l inp data advice) = 8"
  by (simp add: report_steps_list)

lemma insert_image_positions:
  assumes "i < length (report_steps l inp data advice)"
    and "report_steps l inp data advice ! i = InsertImage c f img"
  shows "i = 4 \<or> i = 5 \<or> i = 6"
proof -
  from assms(1) have "i = 0 \<or> i = 1 \<or> i = 2 \<or> i = 3 \<or> i = 4 \<or> i = 5 \<or> i = 6 \<or> i = 7"
    unfolding length_report_steps by arith
  with assms(2) show ?thesis
    by (auto simp add: report_steps_list)
qed

lemma table_written_before:
  assumes "i = 4 \<or> i = 5 \<or> i = 6"
  shows "\<exists>j<i. \<exists>tb. report_steps l inp data advice ! j = ToExcel tb ''Condition Distribution''"
proof -
  have "(2::nat) < i"
    using assms by arith
  moreover have "report_steps l inp data advice ! 2
      = ToExcel (counts_table (value_counts (Condition data))) ''Condition Distribution''"
    by (simp add: report_steps_list)
  ultimately show ?thesis
    by blast
qed

lemma sheet_exists_at_embedding:
  assumes "i = 4 \<or> i = 5 \<or> i = 6"
  shows "\<exists>st. exec_steps ExcelWriter (take i (report_steps l inp data advice)) = Inr st
      \<and> worksheet st = Some ''Condition Distribution''
      \<and> ''Condition Distribution'' \<in> fst ` set (sheets st)"
  using assms
  by (auto simp add: report_steps_list ExcelWriter_def to_excel_def xl_anchor_cells)

lemma exec_report_steps_sheets:
  "\<exists>st. exec_steps ExcelWriter (report_steps l inp data advice) = Inr st
     \<and> report_workbook l inp data advice = Inr (sheets st)"
  by (simp add: report_workbook_def exec_report_steps)

text \<open>
  Claim C6.  In the report block every \<^verbatim>\<open>insert_image\<close> comes after a \<^verbatim>\<open>to_excel\<close> into
  \<^verbatim>\<open>Condition Distribution\<close>: the steps before it run without error and leave a workbook
  that has this sheet, with \<^verbatim>\<open>worksheet\<close> bound to it.  When the run reaches the download
  button, the stream it hands over holds the bytes of the workbook as it is after the last
  step of the block, and its cursor is at 0.
\<close>

theorem embed_after_write_and_rewind:
  fixes l :: "('m, 'f) libs"
  defines "steps \<equiv> \<lambda>s d p t o2 now.
     report_steps l (input_data s d p t o2)
       (add_condition_binary
          (plot_data (classify_patient_condition s d p t o2) (Timestamp (date now))))
       (disease_recommendation (classify_patient_condition s d p t o2))"
  shows "(\<forall>i<length (steps s d p t o2 now). \<forall>c f img.
            steps s d p t o2 now ! i = InsertImage c f img \<longrightarrow>
              (\<exists>j<i. \<exists>tb. steps s d p t o2 now ! j = ToExcel tb ''Condition Distribution'')
            \<and> (\<exists>st. exec_steps ExcelWriter (take i (steps s d p t o2 now)) = Inr st
                  \<and> worksheet st = Some ''Condition Distribution''
                  \<and> ''Condition Distribution'' \<in> fst ` set (sheets st)))
     \<and> (raised (run l s d p t o2 now) = None \<longrightarrow>
          (\<exists>st. exec_steps ExcelWriter (steps s d p t o2 now) = Inr st
             \<and> filter is_download (shown (run l s d p t o2 now))
                 = [DownloadButton ''Download Report''
                      \<lparr>buf = xlsx_bytes l (sheets st), pos = 0\<rparr>
                      ''patient_condition_report_with_charts.xlsx'']))"
proof (intro conjI allI impI)
  fix i c f img
  assume i: "i < length (steps s d p t o2 now)"
    and ins: "steps s d p t o2 now ! i = InsertImage c f img"
  have pos: "i = 4 \<or> i = 5 \<or> i = 6"
    using i ins unfolding steps_def by (rule insert_image_positions)
  show "\<exists>j<i. \<exists>tb. steps s d p t o2 now ! j = ToExcel tb ''Condition Distribution''"
    unfolding steps_def by (rule table_written_before [OF pos])
  show "\<exists>st. exec_steps ExcelWriter (take i (steps s d p t o2 now)) = Inr st
      \<and> worksheet st = Some ''Condition Distribution''
      \<and> ''Condition Distribution'' \<in> fst ` set (sheets st)"
    unfolding steps_def by (rule sheet_exists_at_embedding [OF pos])
next
  assume produced: "raised (run l s d p t o2 now) = None"
  obtain st where ex: "exec_steps ExcelWriter (steps s d p t o2 now) = Inr st"
    and wb: "report_workbook l (input_data s d p t o2)
       (add_condition_binary
          (plot_data (classify_patient_condition s d p t o2) (Timestamp (date now))))
       (disease_recommendation (classify_patient_condition s d p t o2)) = Inr (sheets st)"
    unfolding steps_def using exec_report_steps_sheets by blast
  have "filter is_download (shown (run l s d p t o2 now))
      = [DownloadButton ''Download Report'' \<lparr>buf = xlsx_bytes l (sheets st), pos = 0\<rparr>
           ''patient_condition_report_with_charts.xlsx'']"
    by (rule downloads_of_run [OF produced report_buffer_eq [OF wb]])
  with ex show "\<exists>st. exec_steps ExcelWriter (steps s d p t o2 now) = Inr st
      \<and> filter is_download (shown (run l s d p t o2 now))
          = [DownloadButton ''Download Report'' \<lparr>buf = xlsx_bytes l (sheets st), pos = 0\<rparr>
               ''patient_condition_report_with_charts.xlsx'']"
    by (intro exI conjI)
qed

text \<open>The first embedding, step 4, and the download of C6 with the sample libraries.\<close>

theorem embed_after_write_and_rewind_witness:
  "4 < length (report_steps sample_libs (input_data 110 75 85 (Float 37) 98)
       (add_condition_binary
          (plot_data (classify_patient_condition 110 75 85 (Float 37) 98) (Timestamp (date 0))))
       (disease_recommendation (classify_patient_condition 110 75 85 (Float 37) 98)))
   \<and> (report_steps sample_libs (input_data 110 75 85 (Float 37) 98)
       (add_condition_binary
          (plot_data (classify_patient_condition 110 75 85 (Float 37) 98) (Timestamp (date 0))))
       (disease_recommendation (classify_patient_condition 110 75 85 (Float 37) 98))) ! 4 = InsertImage ''G2'' ''Pie Chart'' \<lparr>buf = [1, 2, 3], pos = 0\<rparr>
   \<and> (\<exists>j<4. \<exists>tb. (report_steps sample_libs (input_data 110 75 85 (Float 37) 98)
       (add_condition_binary
          (plot_data (classify_patient_condition 110 75 85 (Float 37) 98) (Timestamp (date 0))))
       (disease_recommendation (classify_patient_condition 110 75 85 (Float 37) 98))) ! j = ToExcel tb ''Condition Distribution'')
   \<and> (\<exists>st. exec_steps ExcelWriter (take 4 (report_steps sample_libs (input_data 110 75 85 (Float 37) 98)
       (add_condition_binary
          (plot_data (classify_patient_condition 110 75 85 (Float 37) 98) (Timestamp (date 0))))
       (disease_recommendation (classify_patient_condition 110 75 85 (Float 37) 98)))) = Inr st
          \<and> worksheet st = Some ''Condition Distribution''
          \<and> ''Condition Distribution'' \<in> fst ` set (sheets st))
   \<and> raised (run sample_libs 110 75 85 (Float 37) 98 0) = None
   \<and> (\<exists>st. exec_steps ExcelWriter (report_steps sample_libs (input_data 110 75 85 (Float 37) 98)
       (add_condition_binary
          (plot_data (classify_patient_condition 110 75 85 (Float 37) 98) (Timestamp (date 0))))
       (disease_recommendation (classify_patient_condition 110 75 85 (Float 37) 98))) = Inr st
          \<and> filter is_download (shown (run sample_libs 110 75 85 (Float 37) 98 0))
              = [DownloadButton ''Download Report''
                   \<lparr>buf = xlsx_bytes sample_libs (sheets st), pos = 0\<rparr>
                   ''patient_condition_report_with_charts.xlsx''])"
proof -
  note inst = embed_after_write_and_rewind [of sample_libs 110 75 85 "Float 37" 98 0]
  have len: "4 < length (report_steps sample_libs (input_data 110 75 85 (Float 37) 98)
       (add_condition_binary
          (plot_data (classify_patient_condition 110 75 85 (Float 37) 98) (Timestamp (date 0))))
       (disease_recommendation (classify_patient_condition 110 75 85 (Float 37) 98)))"
    by (simp add: length_report_steps)
  have ins: "(report_steps sample_libs (input_data 110 75 85 (Float 37) 98)
       (add_condition_binary
          (plot_data (classify_patient_condition 110 75 85 (Float 37) 98) (Timestamp (date 0))))
       (disease_recommendation (classify_patient_condition 110 75 85 (Float 37) 98))) ! 4 = InsertImage ''G2'' ''Pie Chart'' \<lparr>buf = [1, 2, 3], pos = 0\<rparr>"
    by (simp add: report_steps_list savefig_def bio_write_def BytesIO_def seek_def sample_libs_def)
  have ok: "raised (run sample_libs 110 75 85 (Float 37) 98 0) = None"
    by (rule run_sample_ok)
  from inst have order: "(\<exists>j<4. \<exists>tb. (report_steps sample_libs (input_data 110 75 85 (Float 37) 98)
       (add_condition_binary
          (plot_data (classify_patient_condition 110 75 85 (Float 37) 98) (Timestamp (date 0))))
       (disease_recommendation (classify_patient_condition 110 75 85 (Float 37) 98))) ! j = ToExcel tb ''Condition Distribution'')
      \<and> (\<exists>st. exec_steps ExcelWriter (take 4 (report_steps sample_libs (input_data 110 75 85 (Float 37) 98)
       (add_condition_binary
          (plot_data (classify_patient_condition 110 75 85 (Float 37) 98) (Timestamp (date 0))))
       (disease_recommendation (classify_patient_condition 110 75 85 (Float 37) 98)))) = Inr st
            \<and> worksheet st = Some ''Condition Distribution''
            \<and> ''Condition Distribution'' \<in> fst ` set (sheets st))"
    using len ins by (elim conjE allE [of _ 4]) (erule impE, assumption, blast)
  from inst ok have rewind: "\<exists>st. exec_steps ExcelWriter (report_steps sample_libs (input_data 110 75 85 (Float 37) 98)
       (add_condition_binary
          (plot_data (classify_patient_condition 110 75 85 (Float 37) 98) (Timestamp (date 0))))
       (disease_recommendation (classify_patient_condition 110 75 85 (Float 37) 98))) = Inr st
          \<and> filter is_download (shown (run sample_libs 110 75 85 (Float 37) 98 0))
              = [DownloadButton ''Download Report''
                   \<lparr>buf = xlsx_bytes sample_libs (sheets st), pos = 0\<rparr>
                   ''patient_condition_report_with_charts.xlsx'']"
    by (elim conjE impE) assumption+
  show ?thesis
    using len ins order ok rewind by (intro conjI) (elim conjE, assumption)+
qed

end
